theory Spec2Isabelle
  imports Complex_Main "HOL-Library.Multiset"
begin

section \<open>Data model\<close>

text \<open>
  The route planner of \<^verbatim>\<open>src/hooks/useRouteCalculation.ts\<close> and
  \<^verbatim>\<open>src/pages/RoutePlanner.tsx\<close>.

  Numbers: a JavaScript number that comes out of a JSON payload or out of \<open>+\<close>, \<open>-\<close>,
  \<open>*\<close> on such numbers is modelled as a \<^typ>\<open>real\<close> (exact arithmetic, no rounding, no
  overflow, no signed zero); a field of a payload that the program reads as a number
  (\<open>lat\<close>, \<open>lon\<close>, \<open>value\<close>, \<open>distance\<close>, \<open>duration\<close>, a coordinate) is taken to hold
  one. The two divisions of the program
  (\<open>sum / aqiPoints.length\<close> and the division by \<open>cleanestRoute.avgAqi\<close>) can divide by
  zero, which in JavaScript yields \<open>NaN\<close> or an infinity and never raises; their results
  therefore live in \<open>jsnum\<close>, which adds these three values to the reals.
\<close>

datatype jsnum = Num real | PosInf | NegInf | NaN

fun is_number :: "jsnum \<Rightarrow> bool" where
  "is_number (Num x) = True"
| "is_number _ = False"

fun js_sub :: "jsnum \<Rightarrow> jsnum \<Rightarrow> jsnum" where
  "js_sub (Num a) (Num b) = Num (a - b)"
| "js_sub NaN _ = NaN"
| "js_sub _ NaN = NaN"
| "js_sub PosInf PosInf = NaN"
| "js_sub NegInf NegInf = NaN"
| "js_sub PosInf _ = PosInf"
| "js_sub NegInf _ = NegInf"
| "js_sub (Num a) PosInf = NegInf"
| "js_sub (Num a) NegInf = PosInf"

fun js_div :: "jsnum \<Rightarrow> jsnum \<Rightarrow> jsnum" where
  "js_div (Num a) (Num b) =
     (if b \<noteq> 0 then Num (a / b)
      else if a = 0 then NaN
      else if 0 < a then PosInf else NegInf)"
| "js_div NaN _ = NaN"
| "js_div _ NaN = NaN"
| "js_div (Num a) _ = Num 0"
| "js_div PosInf (Num b) = (if 0 \<le> b then PosInf else NegInf)"
| "js_div NegInf (Num b) = (if 0 \<le> b then NegInf else PosInf)"
| "js_div _ _ = NaN"

fun js_mul :: "jsnum \<Rightarrow> jsnum \<Rightarrow> jsnum" where
  "js_mul (Num a) (Num b) = Num (a * b)"
| "js_mul NaN _ = NaN"
| "js_mul _ NaN = NaN"
| "js_mul PosInf (Num b) = (if b = 0 then NaN else if 0 < b then PosInf else NegInf)"
| "js_mul NegInf (Num b) = (if b = 0 then NaN else if 0 < b then NegInf else PosInf)"
| "js_mul (Num a) PosInf = (if a = 0 then NaN else if 0 < a then PosInf else NegInf)"
| "js_mul (Num a) NegInf = (if a = 0 then NaN else if 0 < a then NegInf else PosInf)"
| "js_mul PosInf PosInf = PosInf"
| "js_mul NegInf NegInf = PosInf"
| "js_mul PosInf NegInf = NegInf"
| "js_mul NegInf PosInf = NegInf"

text \<open>\<open>a < b\<close> and \<open>a <= b\<close> on numbers: every comparison with \<open>NaN\<close> is false.\<close>

fun js_lt :: "jsnum \<Rightarrow> jsnum \<Rightarrow> bool" where
  "js_lt (Num a) (Num b) = (a < b)"
| "js_lt NaN _ = False"
| "js_lt _ NaN = False"
| "js_lt _ NegInf = False"
| "js_lt PosInf _ = False"
| "js_lt NegInf _ = True"
| "js_lt (Num a) PosInf = True"

fun js_le :: "jsnum \<Rightarrow> jsnum \<Rightarrow> bool" where
  "js_le (Num a) (Num b) = (a \<le> b)"
| "js_le NaN _ = False"
| "js_le _ NaN = False"
| "js_le NegInf _ = True"
| "js_le _ PosInf = True"
| "js_le _ _ = False"

text \<open>\<open>Math.round\<close>: the nearest integer, ties towards \<open>+\<infinity>\<close>.\<close>

fun Math_round :: "jsnum \<Rightarrow> jsnum" where
  "Math_round (Num x) = Num (of_int \<lfloor>x + 1 / 2\<rfloor>)"
| "Math_round v = v"

record LatLon =
  lat :: real
  lon :: real

text \<open>\<open>interface AQIData { lat; lon; aqi }\<close>\<close>

record AQIData = LatLon +
  aqi :: real

text \<open>
  A coordinate of a path is the two-element array \<open>[number, number]\<close>; \<open>coord[0]\<close> is
  \<^const>\<open>fst\<close> and \<open>coord[1]\<close> is \<^const>\<open>snd\<close>.
\<close>

type_synonym coord = "real \<times> real"

text \<open>What \<open>getRouteFromORS\<close> returns when it does not return \<open>null\<close>.\<close>

record Route =
  coordinates :: "coord list"
  distance :: real
  duration :: real

text \<open>\<open>interface RouteData\<close> of \<^verbatim>\<open>RoutePlanner.tsx\<close>; the field \<open>id\<close> is \<open>id_route\<close> here.\<close>

record RouteData = Route +
  id_route :: string
  avgAqi :: jsnum
  aqiPoints :: "AQIData list"

section \<open>The external services\<close>

text \<open>
  Every \<open>fetch\<close> of the program is a call to a service outside it. The model records each
  call in a trace and takes the answer from a \<open>world\<close>, which is arbitrary: a theorem
  that quantifies over the world holds for every behaviour of the services.
\<close>

datatype call =
  GeocodeCall string
| RouteCall string LatLon LatLon
| SampleCall real real

text \<open>
  The Nominatim answer to a search. \<open>GeoThrows\<close>: the fetch, the parsing of the body or
  the reading of the first match throws. \<open>GeoJson data\<close>: the body parsed; \<open>data\<close> is the list of matches, each already
  read by \<open>parseFloat\<close>. A body that is \<open>null\<close> or has no elements fails the test
  \<open>data && data.length > 0\<close> either way and is the empty list here.
\<close>

datatype geo_response = GeoThrows | GeoJson "LatLon list"

text \<open>
  The OpenRouteService answer to a directions request.
  \<open>OrsThrows\<close>: the fetch throws. \<open>OrsNotOk\<close>: an answer with \<open>response.ok\<close> false.
  \<open>OrsBadBody\<close>: \<open>response.json()\<close> throws, or the body is \<open>null\<close> so that
  \<open>data.features\<close> throws. \<open>OrsJson fs\<close>: the body parsed and \<open>fs\<close> is \<open>data.features\<close>;
  a missing list fails the test \<open>data.features && data.features.length > 0\<close> as an empty
  one does, so both are the empty list here.
  \<open>Feature cs d t\<close> is a feature with \<open>geometry.coordinates = cs\<close> (in the order of the
  service), \<open>properties.segments[0].distance = d\<close> and \<open>.duration = t\<close>;
  \<open>MalformedFeature\<close> is one that lacks \<open>geometry\<close>, \<open>properties\<close> or \<open>segments[0]\<close>, so that
  reading it throws.
\<close>

datatype ors_feature = Feature "coord list" real real | MalformedFeature

datatype ors_response = OrsThrows | OrsNotOk | OrsBadBody | OrsJson "ors_feature list"

text \<open>
  The OpenAQ answer to \<open>/v2/latest\<close>. \<open>AqThrows\<close>: the fetch, the parsing of the body or a
  property access on it throws (no network, a body that is not JSON, the body \<open>null\<close>).
  \<open>AqJson rs\<close>: the body parsed; \<open>rs\<close> is \<open>data.results\<close>, one list of measurements per
  station. The code treats a missing list and an empty one alike
  (\<open>data.results && data.results.length > 0\<close>, \<open>measurements && measurements.length > 0\<close>),
  so both are the empty list here. The field \<open>value\<close> of a measurement is \<open>value_m\<close>.
\<close>

record measurement =
  parameter :: string
  value_m :: real

datatype aq_response = AqThrows | AqJson "measurement list list"

text \<open>
  The world of one planning request: the answer to the \<open>k\<close>-th geocoding call, the answer
  to the routing request of a profile, and, for the sampler call made for the route of
  index \<open>r\<close> at path index \<open>i\<close>, the OpenAQ answer and the draw of \<open>Math.random()\<close>.
  The evaluations of different routes run interleaved (\<open>Promise.all\<close>); indexing the
  sampler calls by route and path index keeps the answers independent of the
  interleaving. The trace lists the sampler calls route by route; the theorems below use
  only how many there are.
\<close>

record world =
  nominatim :: "nat \<Rightarrow> string \<Rightarrow> geo_response"
  ors :: "string \<Rightarrow> LatLon \<Rightarrow> LatLon \<Rightarrow> ors_response"
  openaq :: "nat \<Rightarrow> nat \<Rightarrow> real \<Rightarrow> real \<Rightarrow> aq_response"
  math_random :: "nat \<Rightarrow> nat \<Rightarrow> real"

section \<open>The adapters\<close>

text \<open>\<open>geocodeLocation\<close> (lines 15-29).\<close>

definition geocodeLocation :: "(string \<Rightarrow> geo_response) \<Rightarrow> string \<Rightarrow> LatLon option" where
  "geocodeLocation service location =
     (case service location of
        GeoThrows \<Rightarrow> None
      | GeoJson data \<Rightarrow>
          (case data of
             [] \<Rightarrow> None
           | first # _ \<Rightarrow> Some \<lparr>lat = lat first, lon = lon first\<rparr>))"

text \<open>
  The repository holds two copies of the hook \<open>useRouteCalculation\<close>, which differ only
  in \<open>fetchAQIData\<close>: the file \<^verbatim>\<open>useRouteCalculation.ts\<close>, and a second document inside
  \<^verbatim>\<open>src/hooks/usePermissions.tsx\<close> (from its line 108 on).

  \<open>fetchAQIData\<close> of \<^verbatim>\<open>useRouteCalculation.ts\<close> (lines 31-56), called with \<open>(la, lo)\<close>.
  \<open>service\<close> is the OpenAQ answer for this call and \<open>rnd\<close> the value \<open>Math.random()\<close>
  returns in it. This copy returns its value as it is computed.
\<close>

definition fetchAQIData :: "(real \<Rightarrow> real \<Rightarrow> aq_response) \<Rightarrow> real \<Rightarrow> real \<Rightarrow> real \<Rightarrow> real" where
  "fetchAQIData service rnd la lo =
     (case service la lo of
        AqThrows \<Rightarrow> 75
      | AqJson results \<Rightarrow>
          (case results of
             [] \<Rightarrow> 50 + rnd * 100
           | station # _ \<Rightarrow>
               (case find (\<lambda>m. parameter m = ''pm25'') station of
                  Some pm25 \<Rightarrow> value_m pm25 * 4.17
                | None \<Rightarrow> 50 + rnd * 100)))"

text \<open>
  The answer of the second request the other copy makes, to the function
  \<open>fetch-nasa-data\<close>, as \<open>Promise.allSettled\<close> reports it. \<open>NasaRejected\<close>: the fetch or
  the parsing of the body fails (status \<open>rejected\<close>). \<open>NasaNull\<close>: the body is \<open>null\<close>, so
  that reading \<open>nasaData.value.power\<close> throws. \<open>NasaJson p\<close>: the body parsed; \<open>p\<close> is
  \<open>None\<close> when it has no \<open>power\<close>, and \<open>Some b\<close> when it has, \<open>b\<close> telling whether
  \<open>power.parameters\<close> is there.
\<close>

datatype nasa_response = NasaRejected | NasaNull | NasaJson "bool option"

text \<open>
  \<open>fetchAQIData\<close> of the copy in \<^verbatim>\<open>usePermissions.tsx\<close> (lines 138-187). It starts from
  \<open>aqi = 75\<close>, draws no random number, and ends with
  \<open>return Math.min(500, Math.max(0, aqi)); // Clamp between 0-500\<close>.
  With \<open>Promise.allSettled\<close> a failed OpenAQ request leaves \<open>aqi\<close> at 75, and an OpenAQ
  body that cannot be read goes to the \<open>catch\<close>, which returns 75; after either, every
  path returns 75, so \<open>AqThrows\<close> gives 75.
\<close>

definition fetchAQIData_clamped ::
  "(real \<Rightarrow> real \<Rightarrow> aq_response) \<Rightarrow> (real \<Rightarrow> real \<Rightarrow> nasa_response) \<Rightarrow> real \<Rightarrow> real \<Rightarrow> real" where
  "fetchAQIData_clamped service nasa la lo =
     (case service la lo of
        AqThrows \<Rightarrow> 75
      | AqJson results \<Rightarrow>
          (let aqi =
                 (case results of
                    [] \<Rightarrow> 75
                  | station # _ \<Rightarrow>
                      (case find (\<lambda>m. parameter m = ''pm25'') station of
                         Some pm25 \<Rightarrow> value_m pm25 * 4.17
                       | None \<Rightarrow> 75))
           in case nasa la lo of
                NasaNull \<Rightarrow> 75
              | NasaRejected \<Rightarrow> min 500 (max 0 aqi)
              | NasaJson power_field \<Rightarrow>
                  (let adjustmentFactor = 1.0;
                       adjusted = (if power_field = Some True then aqi * adjustmentFactor else aqi)
                   in min 500 (max 0 adjusted))))"

text \<open>The route of the \<open>catch\<close> block of \<open>getRouteFromORS\<close> (lines 93-101).\<close>

definition fallback_route :: "LatLon \<Rightarrow> LatLon \<Rightarrow> Route" where
  "fallback_route start end_pt =
     \<lparr>coordinates =
        [(lat start, lon start),
         ((lat start + lat end_pt) / 2, (lon start + lon end_pt) / 2),
         (lat end_pt, lon end_pt)],
      distance = sqrt ((lat end_pt - lat start)\<^sup>2 + (lon end_pt - lon start)\<^sup>2) * 111000,
      duration = 3600\<rparr>"

text \<open>\<open>getRouteFromORS\<close> (lines 58-103); \<open>None\<close> is \<open>null\<close>.\<close>

definition getRouteFromORS ::
  "(string \<Rightarrow> LatLon \<Rightarrow> LatLon \<Rightarrow> ors_response) \<Rightarrow> LatLon \<Rightarrow> LatLon \<Rightarrow> string \<Rightarrow> Route option" where
  "getRouteFromORS service start end_pt profile =
     (case service profile start end_pt of
        OrsThrows \<Rightarrow> Some (fallback_route start end_pt)
      | OrsNotOk \<Rightarrow> Some (fallback_route start end_pt)
      | OrsBadBody \<Rightarrow> Some (fallback_route start end_pt)
      | OrsJson features \<Rightarrow>
          (case features of
             [] \<Rightarrow> None
           | feature # _ \<Rightarrow>
               (case feature of
                  MalformedFeature \<Rightarrow> Some (fallback_route start end_pt)
                | Feature cs d t \<Rightarrow>
                    Some \<lparr>coordinates = map (\<lambda>coord. (snd coord, fst coord)) cs,
                          distance = d, duration = t\<rparr>)))"

section \<open>Sampling along a route\<close>

text \<open>\<open>const sampleInterval = Math.max(1, Math.floor(coordinates.length / 10))\<close>\<close>

definition sampleInterval :: "coord list \<Rightarrow> nat" where
  "sampleInterval coords = max 1 (length coords div 10)"

text \<open>
  The loop of \<open>calculateAQIAlongRoute\<close> (lines 111-115), from the index \<open>i\<close> on;
  \<open>points\<close> is the array \<open>aqiPoints\<close>. \<open>fetch i la lo\<close> is the value the sampler call made
  at path index \<open>i\<close> returns; the trace gets one \<open>SampleCall\<close> for each call.
\<close>

function sample_loop ::
  "(nat \<Rightarrow> real \<Rightarrow> real \<Rightarrow> real) \<Rightarrow> coord list \<Rightarrow> nat \<Rightarrow> AQIData list \<times> call list
     \<Rightarrow> AQIData list \<times> call list" where
  "sample_loop fetch coords i (points, tr) =
     (if i < length coords then
        (let coord = coords ! i;
             aqi = fetch i (fst coord) (snd coord)
         in sample_loop fetch coords (i + sampleInterval coords)
              (points @ [\<lparr>lat = fst coord, lon = snd coord, aqi = aqi\<rparr>],
               tr @ [SampleCall (fst coord) (snd coord)]))
      else (points, tr))"
  by pat_completeness auto
termination
  by (relation "measure (\<lambda>(fetch, coords, i, acc). length coords - i)")
     (auto simp: sampleInterval_def)

declare sample_loop.simps [simp del]

definition calculateAQIAlongRoute ::
  "(nat \<Rightarrow> real \<Rightarrow> real \<Rightarrow> real) \<Rightarrow> coord list \<Rightarrow> call list \<Rightarrow> AQIData list \<times> call list" where
  "calculateAQIAlongRoute fetch coords tr = sample_loop fetch coords 0 ([], tr)"

text \<open>The number of sampler calls, of routing calls and of geocoding calls in a trace.\<close>

definition sampler_calls :: "call list \<Rightarrow> nat" where
  "sampler_calls tr = length (filter (\<lambda>c. case c of SampleCall _ _ \<Rightarrow> True | _ \<Rightarrow> False) tr)"

definition route_calls :: "call list \<Rightarrow> nat" where
  "route_calls tr = length (filter (\<lambda>c. case c of RouteCall _ _ _ \<Rightarrow> True | _ \<Rightarrow> False) tr)"

text \<open>
  The path indices the loop visits from \<open>i\<close> on: \<open>i\<close>, \<open>i + stride\<close>, \<open>i + 2 * stride\<close>, ...
  below the length of the path; and the sample the loop pushes at a path index.
\<close>

definition indices_from :: "coord list \<Rightarrow> nat \<Rightarrow> nat list" where
  "indices_from coords i =
     map (\<lambda>k. i + k * sampleInterval coords)
       [0..<(length coords - i + sampleInterval coords - 1) div sampleInterval coords]"

definition sample_at :: "(nat \<Rightarrow> real \<Rightarrow> real \<Rightarrow> real) \<Rightarrow> coord list \<Rightarrow> nat \<Rightarrow> AQIData" where
  "sample_at fetch coords i =
     \<lparr>lat = fst (coords ! i), lon = snd (coords ! i),
      aqi = fetch i (fst (coords ! i)) (snd (coords ! i))\<rparr>"

section \<open>Evaluating, ranking and planning\<close>

text \<open>The decimal digits of an index, for the template string \<open>`route-${index}`\<close>.\<close>

fun string_of_nat :: "nat \<Rightarrow> string" where
  "string_of_nat n =
     (if n < 10 then [''0123456789'' ! n]
      else string_of_nat (n div 10) @ [''0123456789'' ! (n mod 10)])"

declare string_of_nat.simps [simp del]

text \<open>
  The callback of \<open>validRoutes.map\<close> (lines 149-161) for the route at \<open>index\<close>:
  \<open>avgAqi\<close> is \<open>aqiPoints.reduce((sum, point) => sum + point.aqi, 0) / aqiPoints.length\<close>.
  The sampler is the \<open>fetchAQIData\<close> of \<^verbatim>\<open>useRouteCalculation.ts\<close>.
\<close>

definition evaluate :: "world \<Rightarrow> Route \<Rightarrow> nat \<Rightarrow> call list \<Rightarrow> RouteData \<times> call list" where
  "evaluate w route index tr =
     (let (points, tr') =
            calculateAQIAlongRoute
              (\<lambda>i. fetchAQIData (openaq w index i) (math_random w index i))
              (coordinates route) tr;
          avg = js_div (Num (foldl (\<lambda>sum point. sum + aqi point) 0 points))
                       (Num (real (length points)))
      in (\<lparr>coordinates = coordinates route, distance = distance route,
           duration = duration route, id_route = ''route-'' @ string_of_nat index,
           avgAqi = avg, aqiPoints = points\<rparr>, tr'))"

fun evaluate_all :: "world \<Rightarrow> Route list \<Rightarrow> nat \<Rightarrow> call list \<Rightarrow> RouteData list \<times> call list" where
  "evaluate_all w [] index tr = ([], tr)"
| "evaluate_all w (route # rest) index tr =
     (let (r, tr1) = evaluate w route index tr;
          (rs, tr2) = evaluate_all w rest (Suc index) tr1
      in (r # rs, tr2))"

text \<open>
  \<open>Array.prototype.sort(comparefn)\<close>. ECMAScript reads the comparator through
  \<open>SortCompare\<close>, which turns a \<open>NaN\<close> result into \<open>+0\<close>, and requires the sort to be
  stable. For a comparator that is consistent, every conforming engine therefore returns
  the same array, and it is the one this insertion sort returns: an element goes behind
  every element it does not precede, so elements that compare equal keep their order.
\<close>

definition SortCompare :: "('a \<Rightarrow> 'a \<Rightarrow> jsnum) \<Rightarrow> 'a \<Rightarrow> 'a \<Rightarrow> jsnum" where
  "SortCompare comparefn x y = (case comparefn x y of NaN \<Rightarrow> Num 0 | v \<Rightarrow> v)"

fun sort_insert :: "('a \<Rightarrow> 'a \<Rightarrow> jsnum) \<Rightarrow> 'a \<Rightarrow> 'a list \<Rightarrow> 'a list" where
  "sort_insert comparefn x [] = [x]"
| "sort_insert comparefn x (y # ys) =
     (if js_lt (Num 0) (SortCompare comparefn x y) then y # sort_insert comparefn x ys
      else x # y # ys)"

fun js_sort :: "('a \<Rightarrow> 'a \<Rightarrow> jsnum) \<Rightarrow> 'a list \<Rightarrow> 'a list" where
  "js_sort comparefn [] = []"
| "js_sort comparefn (x # xs) = sort_insert comparefn x (js_sort comparefn xs)"

text \<open>
  The ranking step, \<open>routesWithAQI.sort((a, b) => a.avgAqi - b.avgAqi)\<close> (line 165).
\<close>

definition rank :: "RouteData list \<Rightarrow> RouteData list" where
  "rank routesWithAQI = js_sort (\<lambda>a b. js_sub (avgAqi a) (avgAqi b)) routesWithAQI"

text \<open>The state of the hook: \<open>routes\<close>, \<open>loading\<close>, \<open>error\<close>; \<open>None\<close> is \<open>null\<close>.\<close>

record hook_state =
  routes :: "RouteData list option"
  loading :: bool
  error :: "string option"

definition routeProfiles :: "string list" where
  "routeProfiles = [''driving-car'', ''cycling-regular'']"

text \<open>
  \<open>calculateRoutes\<close> (lines 120-174). A \<open>throw\<close> inside the \<open>try\<close> goes to the \<open>catch\<close>,
  which stores the message in \<open>error\<close>; \<open>finally\<close> clears \<open>loading\<close>. Both geocoding calls
  are made before the test of their results.
\<close>

definition calculateRoutes ::
  "world \<Rightarrow> string \<Rightarrow> string \<Rightarrow> hook_state \<times> call list \<Rightarrow> hook_state \<times> call list" where
  "calculateRoutes w startLocation endLocation s =
     (let st = (fst s)\<lparr>loading := True, error := None, routes := None\<rparr>;
          start = geocodeLocation (nominatim w 0) startLocation;
          end_pt = geocodeLocation (nominatim w 1) endLocation;
          tr = snd s @ [GeocodeCall startLocation, GeocodeCall endLocation]
      in case (start, end_pt) of
           (Some a, Some b) \<Rightarrow>
             (let routeResults = map (\<lambda>profile. getRouteFromORS (ors w) a b profile) routeProfiles;
                  tr1 = tr @ map (\<lambda>profile. RouteCall profile a b) routeProfiles;
                  validRoutes = map the (filter (\<lambda>r. r \<noteq> None) routeResults)
              in if length validRoutes = 0 then
                   (st\<lparr>error := Some ''No routes found'', loading := False\<rparr>, tr1)
                 else
                   (let (routesWithAQI, tr2) = evaluate_all w validRoutes 0 tr1
                    in (st\<lparr>routes := Some (rank routesWithAQI), loading := False\<rparr>, tr2)))
         | _ \<Rightarrow>
             (st\<lparr>error := Some ''Could not find one or both locations'', loading := False\<rparr>, tr))"

section \<open>The recommended route and the premium (RoutePlanner.tsx)\<close>

text \<open>
  \<open>getCleanestRoute\<close> (lines 43-48): \<open>reduce\<close> without an initial value starts from the
  first element.
\<close>

definition getCleanestRoute :: "RouteData list option \<Rightarrow> RouteData option" where
  "getCleanestRoute rts =
     (case rts of
        None \<Rightarrow> None
      | Some [] \<Rightarrow> None
      | Some (first # rest) \<Rightarrow>
          Some (foldl (\<lambda>prev current. if js_lt (avgAqi current) (avgAqi prev) then current else prev)
                  first rest))"

text \<open>Lines 134-137 and the test of line 166, for one \<open>route\<close> of the list.\<close>

definition isCleanest :: "RouteData option \<Rightarrow> RouteData \<Rightarrow> bool" where
  "isCleanest cleanestRoute route =
     (case cleanestRoute of None \<Rightarrow> False | Some c \<Rightarrow> id_route route = id_route c)"

definition cleanerPercent :: "RouteData option \<Rightarrow> RouteData \<Rightarrow> jsnum" where
  "cleanerPercent cleanestRoute route =
     (case cleanestRoute of
        Some c \<Rightarrow>
          Math_round (js_mul (js_div (js_sub (avgAqi route) (avgAqi c)) (avgAqi c)) (Num 100))
      | None \<Rightarrow> Num 0)"

text \<open>The percentage shown beside a route (\<open>+{cleanerPercent}% AQI\<close>), if one is shown.\<close>

definition premium_shown :: "RouteData option \<Rightarrow> RouteData \<Rightarrow> jsnum option" where
  "premium_shown cleanestRoute route =
     (if \<not> isCleanest cleanestRoute route \<and> js_lt (Num 0) (cleanerPercent cleanestRoute route)
      then Some (cleanerPercent cleanestRoute route) else None)"

section \<open>Notions used in the statements\<close>

text \<open>
  The \<open>try\<close> block of \<open>getRouteFromORS\<close> throws: the fetch fails, the answer is not
  \<open>ok\<close>, the body does not parse, or the first feature cannot be read.
\<close>

fun ors_call_throws :: "ors_response \<Rightarrow> bool" where
  "ors_call_throws OrsThrows = True"
| "ors_call_throws OrsNotOk = True"
| "ors_call_throws OrsBadBody = True"
| "ors_call_throws (OrsJson (MalformedFeature # _)) = True"
| "ors_call_throws (OrsJson _) = False"

text \<open>The pm25 measurement \<open>fetchAQIData\<close> finds in an answer, if any.\<close>

definition pm25_found :: "aq_response \<Rightarrow> measurement option" where
  "pm25_found resp =
     (case resp of
        AqThrows \<Rightarrow> None
      | AqJson [] \<Rightarrow> None
      | AqJson (station # _) \<Rightarrow> find (\<lambda>m. parameter m = ''pm25'') station)"

section \<open>Example inputs\<close>

text \<open>A world in which every external call fails, and a route of three coordinates.\<close>

definition offline_world :: world where
  "offline_world =
     \<lparr>nominatim = (\<lambda>k location. GeoThrows), ors = (\<lambda>profile a b. OrsNotOk),
      openaq = (\<lambda>r i la lo. AqThrows), math_random = (\<lambda>r i. 0)\<rparr>"

definition three_point_route :: Route where
  "three_point_route = \<lparr>coordinates = [(1, 2), (3, 4), (5, 6)], distance = 7, duration = 8\<rparr>"

text \<open>
  More example inputs: an evaluated route with one sample and a given mean, the state of
  the hook before a request, and a world in which both places are found and the routing
  service answers with an empty feature list.
\<close>

definition example_route :: "string \<Rightarrow> real \<Rightarrow> RouteData" where
  "example_route name m =
     \<lparr>coordinates = [(0, 0)], distance = 1000, duration = 60, id_route = name,
      avgAqi = Num m, aqiPoints = [\<lparr>lat = 0, lon = 0, aqi = m\<rparr>]\<rparr>"

definition initial_state :: hook_state where
  "initial_state = \<lparr>routes = None, loading = False, error = None\<rparr>"

definition no_route_world :: world where
  "no_route_world =
     \<lparr>nominatim = (\<lambda>k location. GeoJson [\<lparr>lat = 12.97, lon = 77.59\<rparr>]),
      ors = (\<lambda>profile a b. OrsJson []),
      openaq = (\<lambda>r i la lo. AqThrows), math_random = (\<lambda>r i. 0)\<rparr>"

text \<open>The comparator of the ranking step, and the step of \<open>reduce\<close> in \<open>getCleanestRoute\<close>.\<close>

abbreviation cleaner :: "RouteData \<Rightarrow> RouteData \<Rightarrow> RouteData" where
  "cleaner \<equiv> (\<lambda>prev current. if js_lt (avgAqi current) (avgAqi prev) then current else prev)"

abbreviation by_aqi :: "RouteData \<Rightarrow> RouteData \<Rightarrow> jsnum" where
  "by_aqi \<equiv> (\<lambda>a b. js_sub (avgAqi a) (avgAqi b))"

text \<open>
  A world in which both places are found, the routing service answers the first profile
  with a path of one coordinate and the second with a feature whose path is empty, and
  the air-quality service fails; and a world in which both places are found, the routing
  service fails for the first
  profile and has no feature for the second, and the air-quality service fails at the
  first coordinate of a path and reports a pm25 value of 10 at the others.
\<close>

definition empty_path_world :: world where
  "empty_path_world =
     \<lparr>nominatim = (\<lambda>k location. GeoJson [\<lparr>lat = real k, lon = 0\<rparr>]),
      ors = (\<lambda>profile a b.
               if profile = ''driving-car'' then OrsJson [Feature [(0, 0)] 1000 60]
               else OrsJson [Feature [] 2000 120]),
      openaq = (\<lambda>r i la lo. AqThrows), math_random = (\<lambda>r i. 0)\<rparr>"

definition fallback_world :: world where
  "fallback_world =
     \<lparr>nominatim = (\<lambda>k location. GeoJson [\<lparr>lat = real k, lon = 0\<rparr>]),
      ors = (\<lambda>profile a b. if profile = ''driving-car'' then OrsNotOk else OrsJson []),
      openaq = (\<lambda>r i la lo. if i = 0 then AqThrows else AqJson [[\<lparr>parameter = ''pm25'', value_m = 10\<rparr>]]),
      math_random = (\<lambda>r i. 0)\<rparr>"

section \<open>The sampling loop in closed form\<close>

lemma sampleInterval_pos: "0 < sampleInterval coords"
  by (simp add: sampleInterval_def)

lemma steps_Suc:
  assumes "i < (L::nat)" "0 < s"
  shows "(L - i + s - 1) div s = Suc ((L - (i + s) + s - 1) div s)"
proof -
  have "(L - i + s - 1) = (L - i - 1) + s" using assms by simp
  moreover have "(L - i - 1 + s) div s = Suc ((L - i - 1) div s)"
    using assms(2) div_add_self2 [of s "L - i - 1"] by linarith
  ultimately have "(L - i + s - 1) div s = Suc ((L - i - 1) div s)"
    by (simp only:)
  moreover have "(L - i - 1) div s = (L - (i + s) + s - 1) div s"
  proof (cases "i + s \<le> L")
    case True
    then have "L - (i + s) + s - 1 = L - i - 1" using assms by simp
    then show ?thesis by simp
  next
    case False
    then have "L - i - 1 < s" "L - (i + s) + s - 1 < s" using assms by simp_all
    then show ?thesis by simp
  qed
  ultimately show ?thesis by simp
qed

lemma indices_from_step:
  assumes "i < length coords"
  shows "indices_from coords i = i # indices_from coords (i + sampleInterval coords)"
proof -
  let ?s = "sampleInterval coords"
  let ?m = "(length coords - (i + ?s) + ?s - 1) div ?s"
  have "indices_from coords i = map (\<lambda>k. i + k * ?s) [0..<Suc ?m]"
    unfolding indices_from_def using steps_Suc [OF assms sampleInterval_pos, of coords] by simp
  also have "[0..<Suc ?m] = 0 # map Suc [0..<?m]"
    by (simp add: upt_conv_Cons map_Suc_upt del: upt_Suc)
  also have "map (\<lambda>k. i + k * ?s) (0 # map Suc [0..<?m]) = i # indices_from coords (i + ?s)"
    by (simp add: indices_from_def comp_def add.assoc)
  finally show ?thesis .
qed

lemma indices_from_done:
  assumes "\<not> i < length coords"
  shows "indices_from coords i = []"
  using assms sampleInterval_pos [of coords] by (simp add: indices_from_def)

lemma sample_loop_closed:
  "sample_loop fetch coords i (points, tr) =
     (points @ map (sample_at fetch coords) (indices_from coords i),
      tr @ map (\<lambda>j. SampleCall (fst (coords ! j)) (snd (coords ! j))) (indices_from coords i))"
proof (induction fetch coords i "(points, tr)" arbitrary: points tr rule: sample_loop.induct)
  case (1 fetch coords i points tr)
  show ?case
  proof (cases "i < length coords")
    case True
    then show ?thesis
      using "1" by (simp add: sample_loop.simps indices_from_step sample_at_def Let_def)
  next
    case False
    then show ?thesis by (simp add: sample_loop.simps indices_from_done)
  qed
qed

lemma length_indices_from:
  "length (indices_from coords 0) =
     (length coords + sampleInterval coords - 1) div sampleInterval coords"
  by (simp add: indices_from_def)

lemma sampler_calls_Nil: "sampler_calls [] = 0"
  by (simp add: sampler_calls_def)

lemma sampler_calls_append: "sampler_calls (xs @ ys) = sampler_calls xs + sampler_calls ys"
  by (simp add: sampler_calls_def)

lemma sampler_calls_map_SampleCall:
  "sampler_calls (map (\<lambda>j. SampleCall (f j) (g j)) js) = length js"
  by (induction js) (simp_all add: sampler_calls_def)

lemma sampler_calls_calculate:
  "sampler_calls (snd (calculateAQIAlongRoute fetch coords tr)) =
     sampler_calls tr + (length coords + sampleInterval coords - 1) div sampleInterval coords"
  by (simp add: calculateAQIAlongRoute_def sample_loop_closed sampler_calls_append
      sampler_calls_map_SampleCall length_indices_from)

lemma ceiling_div_nat:
  assumes "0 < (s::nat)"
  shows "nat \<lceil>real L / real s\<rceil> = (L + s - 1) div s"
proof -
  define q where "q = (L + s - 1) div s"
  define r where "r = (L + s - 1) mod s"
  have split: "L + s - 1 = q * s + r" and r: "r < s"
    using assms by (simp_all add: q_def r_def)
  have lo: "L \<le> q * s" using split r by linarith
  have hi: "q * s < L + s" using split assms by linarith
  have "real L \<le> real q * real s"
    using lo by (metis of_nat_le_iff of_nat_mult)
  then have up: "real L / real s \<le> of_int (int q)"
    using assms by (simp add: divide_le_eq)
  have "real q * real s < real L + real s"
    using hi by (metis of_nat_less_iff of_nat_mult of_nat_add)
  then have "(real q - 1) * real s < real L"
    by (simp add: algebra_simps)
  then have down: "of_int (int q) - 1 < real L / real s"
    using assms by (simp add: less_divide_eq)
  have "\<lceil>real L / real s\<rceil> = int q"
    using down up by (rule ceiling_unique)
  then show ?thesis by (simp add: q_def)
qed

lemma steps_le_19:
  "(length coords + sampleInterval coords - 1) div sampleInterval coords \<le> 19"
proof (cases "length coords < 10")
  case True
  then show ?thesis by (simp add: sampleInterval_def)
next
  case False
  define s where "s = length coords div 10"
  have s: "1 \<le> s" and L: "length coords < 10 * s + 10"
    using False by (simp_all add: s_def)
  have "sampleInterval coords = s"
    using s by (simp add: sampleInterval_def s_def)
  moreover have "length coords + s - 1 < 20 * s" using s L by linarith
  then have "(length coords + s - 1) div s < 20"
    by (rule less_mult_imp_div_less)
  ultimately show ?thesis by simp
qed

section \<open>The number of sampler calls\<close>

text \<open>
  C1, as the specification states it, is false: the number of sampler calls is
  \<open>ceil(L / stride)\<close> with \<open>stride = max(1, floor(L / 10))\<close>, but it can exceed 11. A path
  of 19 coordinates has stride 1 and is sampled 19 times.
\<close>

theorem C1_counterexample:
  "1 \<le> length (replicate 19 (0::real, 0::real)) \<and>
   sampler_calls (snd (calculateAQIAlongRoute (\<lambda>i la lo. 75) (replicate 19 (0, 0)) [])) = 19 \<and>
   \<not> sampler_calls (snd (calculateAQIAlongRoute (\<lambda>i la lo. 75) (replicate 19 (0, 0)) [])) \<le> 11"
  by (simp add: sampler_calls_calculate sampleInterval_def sampler_calls_Nil)

text \<open>
  C1, amended: for every coordinate path, of length \<open>L\<close>, the sampling loop of
  \<open>calculateAQIAlongRoute\<close> performs exactly \<open>ceil(L / stride)\<close> sampler calls, where
  \<open>stride = max(1, floor(L / 10))\<close>, and this number of calls never exceeds 19.
\<close>

theorem C1_sampler_call_count:
  "sampler_calls (snd (calculateAQIAlongRoute fetch coords tr)) =
     sampler_calls tr + nat \<lceil>real (length coords) / real (max 1 (length coords div 10))\<rceil>
   \<and> nat \<lceil>real (length coords) / real (max 1 (length coords div 10))\<rceil> \<le> 19"
proof -
  have s: "max 1 (length coords div 10) = sampleInterval coords"
    by (simp add: sampleInterval_def)
  have c: "nat \<lceil>real (length coords) / real (sampleInterval coords)\<rceil> =
        (length coords + sampleInterval coords - 1) div sampleInterval coords"
    using sampleInterval_pos by (rule ceiling_div_nat)
  show ?thesis
    unfolding s c using steps_le_19 [of coords] by (simp add: sampler_calls_calculate)
qed

section \<open>Properties of the adapters\<close>

lemma fallback_distance_pos:
  "0 < distance (fallback_route start end_pt) \<longleftrightarrow>
     (lat start, lon start) \<noteq> (lat end_pt, lon end_pt)"
proof -
  have "0 < (lat end_pt - lat start)\<^sup>2 + (lon end_pt - lon start)\<^sup>2 \<longleftrightarrow>
        lat end_pt - lat start \<noteq> 0 \<or> lon end_pt - lon start \<noteq> 0"
    by (rule sum_power2_gt_zero_iff)
  then show ?thesis
    by (auto simp: fallback_route_def zero_less_mult_iff)
qed

lemma fallback_distance_nonneg: "0 \<le> distance (fallback_route start end_pt)"
  by (simp add: fallback_route_def)

lemma getRoute_throws:
  "ors_call_throws (service profile start end_pt) \<Longrightarrow>
     getRouteFromORS service start end_pt profile = Some (fallback_route start end_pt)"
  by (cases "(service profile start end_pt)" rule: ors_call_throws.cases)
    (simp_all add: getRouteFromORS_def)

text \<open>
  C2, as the specification states it, is false in two places. An answer that parses but
  has no feature makes \<open>getRouteFromORS\<close> return \<open>null\<close>, not a fallback route; and the
  fallback route between two equal coordinates has distance 0, not a distance above 0.
\<close>

theorem C2_counterexample:
  "getRouteFromORS (\<lambda>profile a b. OrsJson []) \<lparr>lat = 12.97, lon = 77.59\<rparr> \<lparr>lat = 12.30, lon = 76.65\<rparr>
      ''driving-car'' = None \<and>
   getRouteFromORS (\<lambda>profile a b. OrsNotOk) \<lparr>lat = 12.97, lon = 77.59\<rparr> \<lparr>lat = 12.97, lon = 77.59\<rparr>
      ''driving-car'' =
     Some \<lparr>coordinates = [(12.97, 77.59), (12.97, 77.59), (12.97, 77.59)],
           distance = 0, duration = 3600\<rparr>"
  by (simp add: getRouteFromORS_def fallback_route_def)

text \<open>
  C2, amended: for every origin, destination and profile, whenever the routing call
  throws (the fetch fails, the HTTP status is not ok, the body does not parse, or the
  first feature is malformed), \<open>getRouteFromORS\<close> returns a non-null fallback route whose
  path is exactly the 3 points origin, midpoint, destination, whose duration is 3600 and
  whose distance is \<open>sqrt(dlat^2 + dlon^2) * 111000\<close>, which is at least 0 and is above 0
  exactly when origin and destination differ; the failure is not propagated. When the
  answer parses and its feature list is missing or empty, the function returns \<open>null\<close>.
\<close>

theorem C2_fallback_route:
  "(ors_call_throws (service profile start end_pt) \<longrightarrow>
      (\<exists>r. getRouteFromORS service start end_pt profile = Some r \<and>
           coordinates r =
             [(lat start, lon start),
              ((lat start + lat end_pt) / 2, (lon start + lon end_pt) / 2),
              (lat end_pt, lon end_pt)] \<and>
           length (coordinates r) = 3 \<and>
           duration r = 3600 \<and> 0 < duration r \<and>
           distance r = sqrt ((lat end_pt - lat start)\<^sup>2 + (lon end_pt - lon start)\<^sup>2) * 111000 \<and>
           0 \<le> distance r \<and>
           (0 < distance r \<longleftrightarrow> (lat start, lon start) \<noteq> (lat end_pt, lon end_pt)))) \<and>
   (service profile start end_pt = OrsJson [] \<longrightarrow>
      getRouteFromORS service start end_pt profile = None)"
proof (intro conjI impI)
  assume "ors_call_throws (service profile start end_pt)"
  then have "getRouteFromORS service start end_pt profile = Some (fallback_route start end_pt)"
    by (rule getRoute_throws)
  moreover have "coordinates (fallback_route start end_pt) =
             [(lat start, lon start),
              ((lat start + lat end_pt) / 2, (lon start + lon end_pt) / 2),
              (lat end_pt, lon end_pt)]"
    "duration (fallback_route start end_pt) = 3600"
    "distance (fallback_route start end_pt) =
       sqrt ((lat end_pt - lat start)\<^sup>2 + (lon end_pt - lon start)\<^sup>2) * 111000"
    by (simp_all add: fallback_route_def)
  ultimately show "\<exists>r. getRouteFromORS service start end_pt profile = Some r \<and>
           coordinates r =
             [(lat start, lon start),
              ((lat start + lat end_pt) / 2, (lon start + lon end_pt) / 2),
              (lat end_pt, lon end_pt)] \<and>
           length (coordinates r) = 3 \<and>
           duration r = 3600 \<and> 0 < duration r \<and>
           distance r = sqrt ((lat end_pt - lat start)\<^sup>2 + (lon end_pt - lon start)\<^sup>2) * 111000 \<and>
           0 \<le> distance r \<and>
           (0 < distance r \<longleftrightarrow> (lat start, lon start) \<noteq> (lat end_pt, lon end_pt))"
    using fallback_distance_pos [of start end_pt] fallback_distance_nonneg [of start end_pt]
    by simp
next
  assume "service profile start end_pt = OrsJson []"
  then show "getRouteFromORS service start end_pt profile = None"
    by (simp add: getRouteFromORS_def)
qed

theorem C2_fallback_route_witness:
  "ors_call_throws OrsNotOk \<and>
   getRouteFromORS (\<lambda>profile a b. OrsNotOk) \<lparr>lat = 0, lon = 0\<rparr> \<lparr>lat = 3, lon = 4\<rparr> ''cycling-regular'' =
     Some (fallback_route \<lparr>lat = 0, lon = 0\<rparr> \<lparr>lat = 3, lon = 4\<rparr>) \<and>
   0 < distance (fallback_route \<lparr>lat = 0, lon = 0\<rparr> \<lparr>lat = 3, lon = 4\<rparr>) \<and>
   getRouteFromORS (\<lambda>profile a b. OrsJson []) \<lparr>lat = 0, lon = 0\<rparr> \<lparr>lat = 3, lon = 4\<rparr> ''cycling-regular'' = None"
  using C2_fallback_route [of "\<lambda>profile a b. OrsNotOk" "''cycling-regular''" "\<lparr>lat = 0, lon = 0\<rparr>" "\<lparr>lat = 3, lon = 4\<rparr>"]
    C2_fallback_route [of "\<lambda>profile a b. OrsJson []" "''cycling-regular''" "\<lparr>lat = 0, lon = 0\<rparr>" "\<lparr>lat = 3, lon = 4\<rparr>"]
  by (auto simp: getRouteFromORS_def)

text \<open>
  What the \<open>fetchAQIData\<close> of \<^verbatim>\<open>useRouteCalculation.ts\<close> returns, by the outcome of the
  lookup.
\<close>

lemma fetchAQIData_cases:
  assumes "0 \<le> rnd" and "rnd < 1"
  shows "(service la lo = AqThrows \<longrightarrow> fetchAQIData service rnd la lo = 75) \<and>
     (service la lo \<noteq> AqThrows \<and> pm25_found (service la lo) = None \<longrightarrow>
        fetchAQIData service rnd la lo = 50 + rnd * 100 \<and>
        50 \<le> fetchAQIData service rnd la lo \<and> fetchAQIData service rnd la lo < 150) \<and>
     (pm25_found (service la lo) = None \<longrightarrow>
        0 \<le> fetchAQIData service rnd la lo \<and> fetchAQIData service rnd la lo \<le> 500) \<and>
     (\<forall>pm25. pm25_found (service la lo) = Some pm25 \<longrightarrow>
        fetchAQIData service rnd la lo = value_m pm25 * 4.17)"
  using assms
  by (auto simp: fetchAQIData_def pm25_found_def split: aq_response.splits list.splits option.splits)

lemma fetchAQIData_clamped_range:
  "0 \<le> fetchAQIData_clamped service nasa la lo \<and> fetchAQIData_clamped service nasa la lo \<le> 500"
  by (simp add: fetchAQIData_clamped_def Let_def
      split: aq_response.split list.split option.split nasa_response.split)

text \<open>
  C3: the sampler returns a number, clamped to the range 0 to 500. The copy of
  \<open>fetchAQIData\<close> in \<^verbatim>\<open>usePermissions.tsx\<close> does so for every coordinate and every outcome of
  its lookups; at a pm25 measurement of 200 it returns 500. The copy in
  \<^verbatim>\<open>useRouteCalculation.ts\<close> lacks the clamp: at the same measurement it returns
  \<open>200 * 4.17 = 834\<close>, which is above 500.
\<close>

theorem C3_clamp_missing:
  "0 \<le> fetchAQIData_clamped service nasa la lo \<and>
   fetchAQIData_clamped service nasa la lo \<le> 500 \<and>
   fetchAQIData_clamped (\<lambda>la lo. AqJson [[\<lparr>parameter = ''pm25'', value_m = 200\<rparr>]])
     (\<lambda>la lo. NasaRejected) 12.97 77.59 = 500 \<and>
   fetchAQIData (\<lambda>la lo. AqJson [[\<lparr>parameter = ''pm25'', value_m = 200\<rparr>]]) 0 12.97 77.59 = 834 \<and>
   \<not> fetchAQIData (\<lambda>la lo. AqJson [[\<lparr>parameter = ''pm25'', value_m = 200\<rparr>]]) 0 12.97 77.59 \<le> 500"
proof -
  have "fetchAQIData_clamped (\<lambda>la lo. AqJson [[\<lparr>parameter = ''pm25'', value_m = 200\<rparr>]])
     (\<lambda>la lo. NasaRejected) 12.97 77.59 = 500"
    by (simp add: fetchAQIData_clamped_def)
  moreover have "fetchAQIData (\<lambda>la lo. AqJson [[\<lparr>parameter = ''pm25'', value_m = 200\<rparr>]]) 0 12.97 77.59 = 834"
    by (simp add: fetchAQIData_def)
  ultimately show ?thesis
    using fetchAQIData_clamped_range [of service nasa la lo] by simp
qed

section \<open>Properties of the evaluation of a route\<close>

lemma foldl_add_sum_list:
  "foldl (\<lambda>sum point. sum + f point) a xs = a + sum_list (map f xs)"
  for a :: real
  by (induction xs arbitrary: a) simp_all

lemma aqiPoints_evaluate:
  "aqiPoints (fst (evaluate w route index tr)) =
     map (sample_at (\<lambda>i. fetchAQIData (openaq w index i) (math_random w index i)) (coordinates route))
       (indices_from (coordinates route) 0)"
  by (simp add: evaluate_def calculateAQIAlongRoute_def sample_loop_closed)

lemma avgAqi_evaluate:
  "avgAqi (fst (evaluate w route index tr)) =
     js_div (Num (sum_list (map aqi (aqiPoints (fst (evaluate w route index tr))))))
       (Num (real (length (aqiPoints (fst (evaluate w route index tr))))))"
  by (simp add: evaluate_def calculateAQIAlongRoute_def sample_loop_closed foldl_add_sum_list)

lemma frame_evaluate:
  "coordinates (fst (evaluate w route index tr)) = coordinates route"
  "distance (fst (evaluate w route index tr)) = distance route"
  "duration (fst (evaluate w route index tr)) = duration route"
  by (simp_all add: evaluate_def calculateAQIAlongRoute_def sample_loop_closed)

lemma trace_evaluate:
  "snd (evaluate w route index tr) =
     tr @ map (\<lambda>j. SampleCall (fst (coordinates route ! j)) (snd (coordinates route ! j)))
            (indices_from (coordinates route) 0)"
  by (simp add: evaluate_def calculateAQIAlongRoute_def sample_loop_closed)

lemma indices_from_nth:
  "k < length (indices_from coords 0) \<Longrightarrow> indices_from coords 0 ! k = k * sampleInterval coords"
  by (simp add: indices_from_def)

lemma indices_from_bound:
  assumes "k < length (indices_from coords 0)"
  shows "k * sampleInterval coords < length coords"
proof -
  let ?s = "sampleInterval coords"
  have s: "0 < ?s" by (rule sampleInterval_pos)
  have "k < (length coords + ?s - 1) div ?s"
    using assms by (simp add: length_indices_from)
  then have "Suc k \<le> (length coords + ?s - 1) div ?s" by simp
  then have "Suc k * ?s \<le> length coords + ?s - 1"
    using s by (simp add: less_eq_div_iff_mult_less_eq)
  then show ?thesis using s by simp
qed

lemma indices_three: "indices_from [(1, 2), (3, 4), (5, 6)] 0 = [0, 1, 2]"
  by (simp add: indices_from_def sampleInterval_def upt_rec)

text \<open>
  C8: for every route whose path has at least one coordinate, the evaluator takes at
  least one sample, the first one at the path coordinate of index 0; it makes one sampler
  call for each sample; and the mean pollution index of the route is the sum of the
  samples taken divided by their number.
\<close>

theorem C8_mean_of_samples:
  assumes "coordinates route \<noteq> []"
  shows "aqiPoints (fst (evaluate w route index tr)) \<noteq> [] \<and>
     hd (aqiPoints (fst (evaluate w route index tr))) =
       \<lparr>lat = fst (coordinates route ! 0), lon = snd (coordinates route ! 0),
        aqi = fetchAQIData (openaq w index 0) (math_random w index 0)
                (fst (coordinates route ! 0)) (snd (coordinates route ! 0))\<rparr> \<and>
     sampler_calls (snd (evaluate w route index tr)) =
       sampler_calls tr + length (aqiPoints (fst (evaluate w route index tr))) \<and>
     avgAqi (fst (evaluate w route index tr)) =
       Num (sum_list (map aqi (aqiPoints (fst (evaluate w route index tr)))) /
            real (length (aqiPoints (fst (evaluate w route index tr)))))"
proof -
  have first: "indices_from (coordinates route) 0 =
      0 # indices_from (coordinates route) (0 + sampleInterval (coordinates route))"
    using assms by (intro indices_from_step) simp
  have ne: "aqiPoints (fst (evaluate w route index tr)) \<noteq> []"
    unfolding aqiPoints_evaluate using first by simp
  have h: "hd (aqiPoints (fst (evaluate w route index tr))) =
       \<lparr>lat = fst (coordinates route ! 0), lon = snd (coordinates route ! 0),
        aqi = fetchAQIData (openaq w index 0) (math_random w index 0)
                (fst (coordinates route ! 0)) (snd (coordinates route ! 0))\<rparr>"
    unfolding aqiPoints_evaluate by (subst first) (simp add: sample_at_def)
  have c: "sampler_calls (snd (evaluate w route index tr)) =
       sampler_calls tr + length (aqiPoints (fst (evaluate w route index tr)))"
    by (simp add: trace_evaluate aqiPoints_evaluate sampler_calls_append
        sampler_calls_map_SampleCall)
  have "real (length (aqiPoints (fst (evaluate w route index tr)))) \<noteq> 0"
    using ne by simp
  then have m: "avgAqi (fst (evaluate w route index tr)) =
       Num (sum_list (map aqi (aqiPoints (fst (evaluate w route index tr)))) /
            real (length (aqiPoints (fst (evaluate w route index tr)))))"
    by (subst avgAqi_evaluate) simp
  from ne h c m show ?thesis by blast
qed

theorem C8_mean_of_samples_witness:
  "coordinates three_point_route \<noteq> [] \<and>
   aqiPoints (fst (evaluate offline_world three_point_route 0 [])) =
     [\<lparr>lat = 1, lon = 2, aqi = 75\<rparr>, \<lparr>lat = 3, lon = 4, aqi = 75\<rparr>, \<lparr>lat = 5, lon = 6, aqi = 75\<rparr>] \<and>
   avgAqi (fst (evaluate offline_world three_point_route 0 [])) = Num 75"
  using C8_mean_of_samples [of three_point_route offline_world 0 "[]"]
  by (simp add: aqiPoints_evaluate three_point_route_def indices_three sample_at_def
      fetchAQIData_def offline_world_def)

text \<open>
  C10: the evaluated route carries the coordinate sequence, the distance and the duration
  of the candidate unchanged, and the \<open>k\<close>-th sample carries the path coordinate at index
  \<open>k * stride\<close>, an index of the path; the stride is at least 1, so the samples are listed
  in path order.
\<close>

theorem C10_evaluate_frame:
  "coordinates (fst (evaluate w route index tr)) = coordinates route \<and>
   distance (fst (evaluate w route index tr)) = distance route \<and>
   duration (fst (evaluate w route index tr)) = duration route \<and>
   1 \<le> sampleInterval (coordinates route) \<and>
   (\<forall>k < length (aqiPoints (fst (evaluate w route index tr))).
      k * sampleInterval (coordinates route) < length (coordinates route) \<and>
      (lat (aqiPoints (fst (evaluate w route index tr)) ! k),
       lon (aqiPoints (fst (evaluate w route index tr)) ! k)) =
        coordinates route ! (k * sampleInterval (coordinates route)))"
proof -
  have "k * sampleInterval (coordinates route) < length (coordinates route) \<and>
      (lat (aqiPoints (fst (evaluate w route index tr)) ! k),
       lon (aqiPoints (fst (evaluate w route index tr)) ! k)) =
        coordinates route ! (k * sampleInterval (coordinates route))"
    if "k < length (aqiPoints (fst (evaluate w route index tr)))" for k
  proof -
    from that have k: "k < length (indices_from (coordinates route) 0)"
      by (simp add: aqiPoints_evaluate)
    then show ?thesis
      by (simp add: aqiPoints_evaluate indices_from_nth indices_from_bound sample_at_def)
  qed
  then show ?thesis
    using sampleInterval_pos [of "coordinates route"] by (simp add: frame_evaluate)
qed

theorem C10_evaluate_frame_witness:
  "coordinates (fst (evaluate offline_world three_point_route 1 [])) = [(1, 2), (3, 4), (5, 6)] \<and>
   distance (fst (evaluate offline_world three_point_route 1 [])) = 7 \<and>
   duration (fst (evaluate offline_world three_point_route 1 [])) = 8 \<and>
   map (\<lambda>p. (lat p, lon p)) (aqiPoints (fst (evaluate offline_world three_point_route 1 []))) =
     [(1, 2), (3, 4), (5, 6)]"
  using C10_evaluate_frame [of offline_world three_point_route 1 "[]"]
  by (simp add: aqiPoints_evaluate three_point_route_def indices_three sample_at_def)

section \<open>The sort\<close>

lemma mset_sort_insert: "mset (sort_insert c x xs) = add_mset x (mset xs)"
  by (induction xs) simp_all

lemma mset_js_sort: "mset (js_sort c xs) = mset xs"
  by (induction xs) (simp_all add: mset_sort_insert)

lemma set_js_sort: "set (js_sort c xs) = set xs"
  by (metis mset_js_sort set_mset_mset)

lemma set_sort_insert: "set (sort_insert c x xs) = insert x (set xs)"
  by (metis mset_sort_insert set_mset_mset set_mset_add_mset_insert)

lemma SortCompare_same: "\<not> js_lt (Num 0) (SortCompare (\<lambda>a b. js_sub (f a) (f b)) x y)" if "f x = f y"
  using that by (cases "f y") (simp_all add: SortCompare_def)

lemma filter_sort_insert:
  "filter (\<lambda>r. f r = k) (sort_insert (\<lambda>a b. js_sub (f a) (f b)) x xs) = filter (\<lambda>r. f r = k) (x # xs)"
proof (induction xs)
  case Nil
  show ?case by simp
next
  case (Cons y ys)
  show ?case
  proof (cases "js_lt (Num 0) (SortCompare (\<lambda>a b. js_sub (f a) (f b)) x y)")
    case True
    then have "f x \<noteq> f y" using SortCompare_same [of f x y] by blast
    then show ?thesis using True Cons by auto
  next
    case False
    then show ?thesis by simp
  qed
qed

lemma filter_js_sort:
  "filter (\<lambda>r. f r = k) (js_sort (\<lambda>a b. js_sub (f a) (f b)) xs) = filter (\<lambda>r. f r = k) xs"
  by (induction xs) (simp_all add: filter_sort_insert)

lemma SortCompare_num:
  "js_lt (Num 0) (SortCompare (\<lambda>a b. js_sub (f a) (f b)) x y) \<longleftrightarrow> b < a"
  if "f x = Num a" "f y = Num b"
  using that by (simp add: SortCompare_def)

lemma is_number_iff: "is_number v \<longleftrightarrow> (\<exists>a. v = Num a)"
  by (cases v) simp_all

lemma sorted_sort_insert:
  assumes "is_number (f x)" "\<forall>y\<in>set xs. is_number (f y)"
    and "sorted_wrt (\<lambda>a b. js_le (f a) (f b)) xs"
  shows "sorted_wrt (\<lambda>a b. js_le (f a) (f b)) (sort_insert (\<lambda>a b. js_sub (f a) (f b)) x xs)"
  using assms
proof (induction xs)
  case Nil
  then show ?case by simp
next
  case (Cons y ys)
  obtain a where a: "f x = Num a" using Cons.prems(1) by (auto simp: is_number_iff)
  obtain b where b: "f y = Num b" using Cons.prems(2) by (auto simp: is_number_iff)
  show ?case
  proof (cases "b < a")
    case True
    have "js_le (f y) (f z)" if "z \<in> set (sort_insert (\<lambda>a b. js_sub (f a) (f b)) x ys)" for z
      using that True Cons.prems(3) a b by (auto simp: set_sort_insert)
    then show ?thesis
      using True Cons a b by (simp add: SortCompare_num)
  next
    case False
    have "js_le (f x) (f z)" if z: "z \<in> set ys" for z
    proof -
      have "is_number (f z)" using Cons.prems(2) z by simp
      then obtain c where c: "f z = Num c" by (auto simp: is_number_iff)
      have "js_le (f y) (f z)" using Cons.prems(3) z by simp
      then show ?thesis using False a b c by simp
    qed
    then show ?thesis
      using False Cons.prems(3) a b by (simp add: SortCompare_num)
  qed
qed

lemma sorted_js_sort:
  assumes "\<forall>y\<in>set xs. is_number (f y)"
  shows "sorted_wrt (\<lambda>a b. js_le (f a) (f b)) (js_sort (\<lambda>a b. js_sub (f a) (f b)) xs)"
  using assms
  by (induction xs) (simp_all add: sorted_sort_insert set_js_sort)

lemma foldl_keep_first:
  assumes "\<forall>y\<in>set xs. \<not> js_lt (avgAqi y) (avgAqi p)"
  shows "foldl (\<lambda>prev current. if js_lt (avgAqi current) (avgAqi prev) then current else prev) p xs = p"
  using assms by (induction xs) simp_all

lemma js_le_not_lt: "js_le a b \<Longrightarrow> \<not> js_lt b a"
  by (cases a; cases b) simp_all

lemma cleanest_of_sorted:
  assumes "sorted_wrt (\<lambda>a b. js_le (avgAqi a) (avgAqi b)) (r # rs)"
  shows "getCleanestRoute (Some (r # rs)) = Some r"
  using assms by (simp add: getCleanestRoute_def foldl_keep_first js_le_not_lt)

lemma js_le_refl_num: "is_number a \<Longrightarrow> js_le a a"
  by (cases a) simp_all

lemma rank_sorted:
  "\<forall>r\<in>set rs. is_number (avgAqi r) \<Longrightarrow>
     sorted_wrt (\<lambda>a b. js_le (avgAqi a) (avgAqi b)) (rank rs)"
  unfolding rank_def by (rule sorted_js_sort)

lemma rank_first_least:
  assumes "\<forall>r\<in>set rs. is_number (avgAqi r)" and "rank rs = x # xs" and "r \<in> set rs"
  shows "js_le (avgAqi x) (avgAqi r)"
proof -
  have s: "sorted_wrt (\<lambda>a b. js_le (avgAqi a) (avgAqi b)) (x # xs)"
    using rank_sorted [OF assms(1)] assms(2) by simp
  have "set (x # xs) = set rs"
    using assms(2) set_js_sort [of by_aqi rs] by (simp add: rank_def)
  then have "r = x \<or> r \<in> set xs" using assms(3) by auto
  then show ?thesis
  proof
    assume "r = x"
    then show ?thesis using assms(1,3) js_le_refl_num by blast
  next
    assume "r \<in> set xs"
    then show ?thesis using s by simp
  qed
qed

lemma rank_Nil_iff: "rank rs = [] \<longleftrightarrow> rs = []"
  by (metis mset_js_sort mset_zero_iff rank_def)

section \<open>Properties of ranking and of the premium\<close>

text \<open>
  C4: for every finite sequence of evaluated routes whose means are numbers, the ranking
  step returns a sequence in which, for all positions \<open>i < j\<close>, the mean at \<open>i\<close> is at
  most the mean at \<open>j\<close>; if the sequence is not empty, its first element is a route of
  the input whose mean is at most every mean of the input, and it is the route
  \<open>getCleanestRoute\<close> recommends.
\<close>

theorem C4_rank_sorted:
  assumes "\<forall>r\<in>set rs. is_number (avgAqi r)"
  shows "(\<forall>i j. i < j \<and> j < length (rank rs) \<longrightarrow>
            js_le (avgAqi (rank rs ! i)) (avgAqi (rank rs ! j))) \<and>
     (rs \<noteq> [] \<longrightarrow>
        rank rs ! 0 \<in> set rs \<and>
        (\<forall>r\<in>set rs. js_le (avgAqi (rank rs ! 0)) (avgAqi r)) \<and>
        getCleanestRoute (Some (rank rs)) = Some (rank rs ! 0))"
proof (intro conjI impI allI)
  fix i j
  assume "i < j \<and> j < length (rank rs)"
  then show "js_le (avgAqi (rank rs ! i)) (avgAqi (rank rs ! j))"
    using rank_sorted [OF assms] by (simp add: sorted_wrt_iff_nth_less)
next
  assume "rs \<noteq> []"
  then obtain x xs where x: "rank rs = x # xs"
    using rank_Nil_iff [of rs] by (cases "rank rs") auto
  have "x \<in> set (rank rs)" using x by simp
  then show "rank rs ! 0 \<in> set rs"
    using x set_js_sort [of by_aqi rs] by (simp add: rank_def)
  show "\<forall>r\<in>set rs. js_le (avgAqi (rank rs ! 0)) (avgAqi r)"
    using rank_first_least [OF assms x] x by simp
  show "getCleanestRoute (Some (rank rs)) = Some (rank rs ! 0)"
    using rank_sorted [OF assms] x by (simp add: cleanest_of_sorted)
qed

theorem C4_rank_sorted_witness:
  "is_number (avgAqi (example_route ''route-0'' 80)) \<and>
   is_number (avgAqi (example_route ''route-1'' 60)) \<and>
   rank [example_route ''route-0'' 80, example_route ''route-1'' 60] =
     [example_route ''route-1'' 60, example_route ''route-0'' 80] \<and>
   getCleanestRoute (Some (rank [example_route ''route-0'' 80, example_route ''route-1'' 60])) =
     Some (example_route ''route-1'' 60)"
  using C4_rank_sorted [of "[example_route ''route-0'' 80, example_route ''route-1'' 60]"]
  by (simp add: rank_def SortCompare_def example_route_def)

text \<open>
  C5: the ranking step is stable. For every input sequence and every value \<open>k\<close> of the
  mean, the routes of mean \<open>k\<close> stand in the output in the order in which they stand in
  the input. (When every mean is a number the comparator is consistent and every engine
  returns the order of this model; with a mean that is \<open>NaN\<close> ECMAScript leaves the order
  to the engine, and the statement is about the order of this model.)
\<close>

theorem C5_rank_stable:
  "filter (\<lambda>r. avgAqi r = k) (rank rs) = filter (\<lambda>r. avgAqi r = k) rs"
  unfolding rank_def by (rule filter_js_sort)

theorem C5_rank_stable_witness:
  "rank [example_route ''route-0'' 80, example_route ''route-1'' 60, example_route ''route-2'' 60] =
     [example_route ''route-1'' 60, example_route ''route-2'' 60, example_route ''route-0'' 80] \<and>
   filter (\<lambda>r. avgAqi r = Num 60)
     (rank [example_route ''route-0'' 80, example_route ''route-1'' 60, example_route ''route-2'' 60]) =
     [example_route ''route-1'' 60, example_route ''route-2'' 60]"
  using C5_rank_stable [of "Num 60" "[example_route ''route-0'' 80, example_route ''route-1'' 60, example_route ''route-2'' 60]"]
  by (simp add: rank_def SortCompare_def example_route_def)

text \<open>
  C9: the ranking step only reorders. Its output has the elements of its input, each as
  often as the input has it, so every route keeps its mean, its samples, its coordinates,
  its distance and its duration.
\<close>

theorem C9_rank_permutes:
  "mset (rank rs) = mset rs \<and>
   length (rank rs) = length rs \<and>
   mset (map (\<lambda>r. (avgAqi r, aqiPoints r, coordinates r, distance r, duration r)) (rank rs)) =
     mset (map (\<lambda>r. (avgAqi r, aqiPoints r, coordinates r, distance r, duration r)) rs)"
proof -
  have m: "mset (rank rs) = mset rs" by (simp add: rank_def mset_js_sort)
  then have "size (mset (rank rs)) = size (mset rs)" by simp
  then have l: "length (rank rs) = length rs" by simp
  have "image_mset (\<lambda>r. (avgAqi r, aqiPoints r, coordinates r, distance r, duration r)) (mset (rank rs)) =
        image_mset (\<lambda>r. (avgAqi r, aqiPoints r, coordinates r, distance r, duration r)) (mset rs)"
    using m by simp
  then show ?thesis using m l by simp
qed

lemma round_nonneg:
  assumes "0 \<le> (x::real)"
  shows "0 \<le> (of_int \<lfloor>x + 1 / 2\<rfloor> :: real)"
proof -
  have "0 \<le> \<lfloor>x + 1 / 2\<rfloor>" using assms by simp
  then show ?thesis by simp
qed

lemma js_le_trans: "js_le a b \<Longrightarrow> js_le b c \<Longrightarrow> js_le a c"
  by (cases a; cases b; cases c) simp_all

lemma js_lt_imp_le: "js_lt a b \<Longrightarrow> js_le a b"
  by (cases a; cases b) simp_all

lemma js_not_lt_imp_le: "\<not> js_lt a b \<Longrightarrow> a \<noteq> NaN \<Longrightarrow> b \<noteq> NaN \<Longrightarrow> js_le b a"
  by (cases a; cases b) simp_all

lemma js_le_refl: "a \<noteq> NaN \<Longrightarrow> js_le a a"
  by (cases a) simp_all

lemma js_lt_NaN: "\<not> js_lt a NaN"
  by (cases a) simp_all

lemma foldl_NaN_first:
  "avgAqi p = NaN \<Longrightarrow> foldl cleaner p xs = p"
  by (induction xs) (simp_all add: js_lt_NaN)

lemma foldl_least:
  assumes "avgAqi (foldl cleaner p xs) \<noteq> NaN" and "r \<in> set (p # xs)" and "avgAqi r \<noteq> NaN"
  shows "js_le (avgAqi (foldl cleaner p xs)) (avgAqi r)"
  using assms
proof (induction xs arbitrary: p r)
  case Nil
  then show ?case by (simp add: js_le_refl)
next
  case (Cons x xs)
  let ?p = "cleaner p x"
  have res: "foldl cleaner p (x # xs) = foldl cleaner ?p xs" by simp
  have pn: "avgAqi p \<noteq> NaN"
    using Cons.prems(1) foldl_NaN_first [of p "x # xs"] by auto
  have p'n: "avgAqi ?p \<noteq> NaN"
    using pn by (cases "avgAqi x") auto
  have nn: "avgAqi (foldl cleaner ?p xs) \<noteq> NaN" using Cons.prems(1) res by simp
  have top: "js_le (avgAqi (foldl cleaner ?p xs)) (avgAqi ?p)"
    using Cons.IH [of ?p ?p] nn p'n by simp
  consider (tail) "r \<in> set (?p # xs)" | (other) "r \<notin> set (?p # xs)" by blast
  then have "js_le (avgAqi (foldl cleaner ?p xs)) (avgAqi r)"
  proof cases
    case tail
    then show ?thesis using Cons.IH [of ?p r] nn Cons.prems(3) by simp
  next
    case other
    show ?thesis
    proof (cases "js_lt (avgAqi x) (avgAqi p)")
      case True
      then have "r = p" using other Cons.prems(2) by auto
      then have "js_le (avgAqi ?p) (avgAqi r)" using True by (simp add: js_lt_imp_le)
      then show ?thesis using top js_le_trans by blast
    next
      case False
      then have rx: "r = x" using other Cons.prems(2) by auto
      then have "js_le (avgAqi p) (avgAqi x)"
        using False Cons.prems(3) pn by (simp add: js_not_lt_imp_le)
      then have "js_le (avgAqi ?p) (avgAqi r)" using False rx by simp
      then show ?thesis using top js_le_trans by blast
    qed
  qed
  then show ?case using res by simp
qed

lemma cleanest_least:
  assumes "getCleanestRoute (Some plan) = Some c" and "avgAqi c \<noteq> NaN"
    and "r \<in> set plan" and "avgAqi r \<noteq> NaN"
  shows "js_le (avgAqi c) (avgAqi r)"
proof (cases plan)
  case Nil
  then show ?thesis using assms(3) by simp
next
  case (Cons p xs)
  then have c: "c = foldl cleaner p xs"
    using assms(1) by (simp add: getCleanestRoute_def)
  show ?thesis
    unfolding c using assms(2,3,4) Cons c by (intro foldl_least) simp_all
qed

text \<open>
  The plan of \<open>empty_path_world\<close>: the route of the second profile has an empty path, no
  sample and the mean \<open>0 / 0\<close>.
\<close>

lemma calculateRoutes_empty_path:
  "routes (fst (calculateRoutes empty_path_world ''A'' ''B'' (initial_state, []))) =
     Some [\<lparr>coordinates = [(0, 0)], distance = 1000, duration = 60, id_route = ''route-0'',
             avgAqi = Num 75, aqiPoints = [\<lparr>lat = 0, lon = 0, aqi = 75\<rparr>]\<rparr>,
           \<lparr>coordinates = [], distance = 2000, duration = 120, id_route = ''route-1'',
             avgAqi = NaN, aqiPoints = []\<rparr>]"
  by (simp add: calculateRoutes_def empty_path_world_def geocodeLocation_def routeProfiles_def
      getRouteFromORS_def evaluate_def calculateAQIAlongRoute_def sample_loop_closed
      indices_from_def sampleInterval_def sample_at_def fetchAQIData_def rank_def
      SortCompare_def string_of_nat.simps initial_state_def Let_def)


text \<open>
  C6, as the specification states it, is false. In the plan of \<open>empty_path_world\<close> the
  recommended route has the mean 75, which is above 0, and the premium computed for the
  other route, whose mean is \<open>NaN\<close>, is \<open>NaN\<close>, which is not at least 0.
\<close>

theorem C6_counterexample:
  "routes (fst (calculateRoutes empty_path_world ''A'' ''B'' (initial_state, []))) =
     Some [\<lparr>coordinates = [(0, 0)], distance = 1000, duration = 60, id_route = ''route-0'',
             avgAqi = Num 75, aqiPoints = [\<lparr>lat = 0, lon = 0, aqi = 75\<rparr>]\<rparr>,
           \<lparr>coordinates = [], distance = 2000, duration = 120, id_route = ''route-1'',
             avgAqi = NaN, aqiPoints = []\<rparr>] \<and>
   getCleanestRoute (routes (fst (calculateRoutes empty_path_world ''A'' ''B'' (initial_state, [])))) =
     Some \<lparr>coordinates = [(0, 0)], distance = 1000, duration = 60, id_route = ''route-0'',
            avgAqi = Num 75, aqiPoints = [\<lparr>lat = 0, lon = 0, aqi = 75\<rparr>]\<rparr> \<and>
   cleanerPercent
     (getCleanestRoute (routes (fst (calculateRoutes empty_path_world ''A'' ''B'' (initial_state, [])))))
     \<lparr>coordinates = [], distance = 2000, duration = 120, id_route = ''route-1'',
      avgAqi = NaN, aqiPoints = []\<rparr> = NaN \<and>
   \<not> isCleanest
     (getCleanestRoute (routes (fst (calculateRoutes empty_path_world ''A'' ''B'' (initial_state, [])))))
     \<lparr>coordinates = [], distance = 2000, duration = 120, id_route = ''route-1'',
      avgAqi = NaN, aqiPoints = []\<rparr> \<and>
   \<not> js_le (Num 0) NaN"
  by (simp add: calculateRoutes_empty_path getCleanestRoute_def cleanerPercent_def isCleanest_def)

text \<open>
  C6, amended: for every plan, ranked or not, whose recommended route has a mean
  \<open>m > 0\<close>, the premium \<open>Math.round((a - m) / m * 100)\<close> computed for every route of the
  plan whose own mean \<open>a\<close> is a number is at least 0, since \<open>m \<le> a\<close>. A route whose mean
  is \<open>NaN\<close> has the premium \<open>NaN\<close>, and no premium is displayed for it. No premium is
  displayed unless it is above 0, so none is displayed negative.
\<close>

theorem C6_premium_nonneg:
  assumes "getCleanestRoute (Some plan) = Some c"
    and "avgAqi c = Num m" and "0 < m"
    and "r \<in> set plan"
  shows "(\<forall>a. avgAqi r = Num a \<longrightarrow>
            m \<le> a \<and>
            cleanerPercent (Some c) r = Num (of_int \<lfloor>(a - m) / m * 100 + 1 / 2\<rfloor>) \<and>
            (0::real) \<le> of_int \<lfloor>(a - m) / m * 100 + 1 / 2\<rfloor>) \<and>
     (avgAqi r \<noteq> NaN \<longrightarrow> js_le (Num 0) (cleanerPercent (Some c) r)) \<and>
     (avgAqi r = NaN \<longrightarrow>
        cleanerPercent (Some c) r = NaN \<and> premium_shown (Some c) r = None) \<and>
     (\<forall>q. premium_shown (Some c) r = Some q \<longrightarrow> js_lt (Num 0) q)"
proof -
  have least: "js_le (Num m) (avgAqi r)" if "avgAqi r \<noteq> NaN"
    using cleanest_least [OF assms(1) _ assms(4) that] assms(2) by simp
  have num: "m \<le> a \<and>
            cleanerPercent (Some c) r = Num (of_int \<lfloor>(a - m) / m * 100 + 1 / 2\<rfloor>) \<and>
            (0::real) \<le> of_int \<lfloor>(a - m) / m * 100 + 1 / 2\<rfloor>"
    if a: "avgAqi r = Num a" for a
  proof -
    have le: "m \<le> a" using least a by simp
    have cp: "cleanerPercent (Some c) r = Num (of_int \<lfloor>(a - m) / m * 100 + 1 / 2\<rfloor>)"
      using a assms(2,3) by (simp add: cleanerPercent_def)
    have "0 \<le> (a - m) / m * 100" using le assms(3) by simp
    then have "0 \<le> (of_int \<lfloor>(a - m) / m * 100 + 1 / 2\<rfloor> :: real)" by (rule round_nonneg)
    then show ?thesis using le cp by simp
  qed
  have nonneg: "js_le (Num 0) (cleanerPercent (Some c) r)" if n: "avgAqi r \<noteq> NaN"
  proof (cases "avgAqi r")
    case (Num a)
    then show ?thesis using num [of a] by simp
  next
    case PosInf
    then show ?thesis using assms(2,3) by (simp add: cleanerPercent_def)
  next
    case NegInf
    then show ?thesis using least [OF n] by simp
  next
    case NaN
    then show ?thesis using n by simp
  qed
  have nan: "cleanerPercent (Some c) r = NaN \<and> premium_shown (Some c) r = None"
    if "avgAqi r = NaN"
    using that by (simp add: cleanerPercent_def premium_shown_def)
  have shown: "\<forall>q. premium_shown (Some c) r = Some q \<longrightarrow> js_lt (Num 0) q"
    by (simp add: premium_shown_def)
  show ?thesis using num nonneg nan shown by blast
qed

theorem C6_premium_nonneg_witness:
  "getCleanestRoute (Some (rank [example_route ''route-0'' 80, example_route ''route-1'' 60])) =
     Some (example_route ''route-1'' 60) \<and>
   avgAqi (example_route ''route-1'' 60) = Num 60 \<and>
   example_route ''route-0'' 80 \<in> set (rank [example_route ''route-0'' 80, example_route ''route-1'' 60]) \<and>
   cleanerPercent (Some (example_route ''route-1'' 60)) (example_route ''route-0'' 80) = Num 33 \<and>
   premium_shown (Some (example_route ''route-1'' 60)) (example_route ''route-0'' 80) = Some (Num 33)"
  using C6_premium_nonneg [of "rank [example_route ''route-0'' 80, example_route ''route-1'' 60]"
      "example_route ''route-1'' 60" 60 "example_route ''route-0'' 80"]
  by (simp add: rank_def SortCompare_def example_route_def getCleanestRoute_def
      cleanerPercent_def premium_shown_def isCleanest_def)

section \<open>Properties of a planning request\<close>

lemma calculateRoutes_not_found:
  assumes "geocodeLocation (nominatim w 0) startLocation = None \<or>
           geocodeLocation (nominatim w 1) endLocation = None"
  shows "calculateRoutes w startLocation endLocation (st, tr) =
     (st\<lparr>loading := False, error := Some ''Could not find one or both locations'', routes := None\<rparr>,
      tr @ [GeocodeCall startLocation, GeocodeCall endLocation])"
  using assms by (auto simp: calculateRoutes_def Let_def split: option.splits)

lemma calculateRoutes_no_routes:
  assumes "geocodeLocation (nominatim w 0) startLocation = Some a"
    and "geocodeLocation (nominatim w 1) endLocation = Some b"
    and "\<forall>profile\<in>set routeProfiles. getRouteFromORS (ors w) a b profile = None"
  shows "calculateRoutes w startLocation endLocation (st, tr) =
     (st\<lparr>loading := False, error := Some ''No routes found'', routes := None\<rparr>,
      tr @ [GeocodeCall startLocation, GeocodeCall endLocation] @
        map (\<lambda>profile. RouteCall profile a b) routeProfiles)"
  using assms by (simp add: calculateRoutes_def Let_def routeProfiles_def)

lemma route_calls_append: "route_calls (xs @ ys) = route_calls xs + route_calls ys"
  by (simp add: route_calls_def)

text \<open>
  C7: for every pair of input texts, the empty text included, if geocoding finds no
  coordinate for the origin or for the destination, \<open>calculateRoutes\<close> ends with the
  error \<open>Could not find one or both locations\<close> and with no routes, and has made the two
  geocoding calls and no routing call and no sampler call. This error differs from the
  error \<open>No routes found\<close>, with which it ends when both places are found and every
  profile yields no route.
\<close>

theorem C7_endpoint_resolution_error:
  "(geocodeLocation (nominatim w 0) startLocation = None \<or>
    geocodeLocation (nominatim w 1) endLocation = None \<longrightarrow>
      error (fst (calculateRoutes w startLocation endLocation (st, tr))) =
        Some ''Could not find one or both locations'' \<and>
      error (fst (calculateRoutes w startLocation endLocation (st, tr))) \<noteq> Some ''No routes found'' \<and>
      routes (fst (calculateRoutes w startLocation endLocation (st, tr))) = None \<and>
      loading (fst (calculateRoutes w startLocation endLocation (st, tr))) = False \<and>
      snd (calculateRoutes w startLocation endLocation (st, tr)) =
        tr @ [GeocodeCall startLocation, GeocodeCall endLocation] \<and>
      route_calls (snd (calculateRoutes w startLocation endLocation (st, tr))) = route_calls tr \<and>
      sampler_calls (snd (calculateRoutes w startLocation endLocation (st, tr))) = sampler_calls tr) \<and>
   (\<forall>a b. geocodeLocation (nominatim w 0) startLocation = Some a \<and>
          geocodeLocation (nominatim w 1) endLocation = Some b \<and>
          (\<forall>profile\<in>set routeProfiles. getRouteFromORS (ors w) a b profile = None) \<longrightarrow>
      error (fst (calculateRoutes w startLocation endLocation (st, tr))) = Some ''No routes found'' \<and>
      routes (fst (calculateRoutes w startLocation endLocation (st, tr))) = None)"
proof (intro conjI impI allI)
  assume "geocodeLocation (nominatim w 0) startLocation = None \<or>
    geocodeLocation (nominatim w 1) endLocation = None"
  note e = calculateRoutes_not_found [OF this, of st tr]
  show "error (fst (calculateRoutes w startLocation endLocation (st, tr))) =
        Some ''Could not find one or both locations''"
    by (simp add: e)
  show "error (fst (calculateRoutes w startLocation endLocation (st, tr))) \<noteq> Some ''No routes found''"
    by (simp add: e)
  show "routes (fst (calculateRoutes w startLocation endLocation (st, tr))) = None"
    by (simp add: e)
  show "loading (fst (calculateRoutes w startLocation endLocation (st, tr))) = False"
    by (simp add: e)
  show "snd (calculateRoutes w startLocation endLocation (st, tr)) =
        tr @ [GeocodeCall startLocation, GeocodeCall endLocation]"
    by (simp add: e)
  show "route_calls (snd (calculateRoutes w startLocation endLocation (st, tr))) = route_calls tr"
    by (simp add: e route_calls_def)
  show "sampler_calls (snd (calculateRoutes w startLocation endLocation (st, tr))) = sampler_calls tr"
    by (simp add: e sampler_calls_def)
next
  fix a b
  assume h: "geocodeLocation (nominatim w 0) startLocation = Some a \<and>
          geocodeLocation (nominatim w 1) endLocation = Some b \<and>
          (\<forall>profile\<in>set routeProfiles. getRouteFromORS (ors w) a b profile = None)"
  then have e: "calculateRoutes w startLocation endLocation (st, tr) =
     (st\<lparr>loading := False, error := Some ''No routes found'', routes := None\<rparr>,
      tr @ [GeocodeCall startLocation, GeocodeCall endLocation] @
        map (\<lambda>profile. RouteCall profile a b) routeProfiles)"
    by (intro calculateRoutes_no_routes) simp_all
  show "error (fst (calculateRoutes w startLocation endLocation (st, tr))) = Some ''No routes found''"
    by (simp add: e)
  show "routes (fst (calculateRoutes w startLocation endLocation (st, tr))) = None"
    by (simp add: e)
qed

theorem C7_endpoint_resolution_error_witness:
  "geocodeLocation (nominatim offline_world 0) '''' = None \<and>
   calculateRoutes offline_world '''' ''Mysore, India'' (initial_state, []) =
     (\<lparr>routes = None, loading = False, error = Some ''Could not find one or both locations''\<rparr>,
      [GeocodeCall '''', GeocodeCall ''Mysore, India'']) \<and>
   geocodeLocation (nominatim no_route_world 0) ''Bangalore, India'' = Some \<lparr>lat = 12.97, lon = 77.59\<rparr> \<and>
   geocodeLocation (nominatim no_route_world 1) ''Mysore, India'' = Some \<lparr>lat = 12.97, lon = 77.59\<rparr> \<and>
   error (fst (calculateRoutes no_route_world ''Bangalore, India'' ''Mysore, India'' (initial_state, []))) =
     Some ''No routes found''"
  using C7_endpoint_resolution_error [of offline_world "''''" "''Mysore, India''" initial_state "[]"]
    C7_endpoint_resolution_error [of no_route_world "''Bangalore, India''" "''Mysore, India''" initial_state "[]"]
  by (simp add: geocodeLocation_def offline_world_def no_route_world_def initial_state_def
      calculateRoutes_def routeProfiles_def getRouteFromORS_def Let_def)

section \<open>A planning request, end to end\<close>

text \<open>
  In the world \<open>fallback_world\<close> the plan has one route, the fallback route of the first
  profile, with the three samples 75, 41.7 and 41.7 and their mean.
\<close>

lemma indices_3: "length coords = 3 \<Longrightarrow> indices_from coords 0 = [0, 1, 2]"
  by (simp add: indices_from_def sampleInterval_def upt_rec)

lemma calculateRoutes_example:
  "map (\<lambda>r. (id_route r, coordinates r, duration r, avgAqi r, map aqi (aqiPoints r)))
     (the (routes (fst (calculateRoutes fallback_world ''A'' ''B'' (initial_state, []))))) =
   [(''route-0'', [(0, 0), (1 / 2, 0), (1, 0)], 3600, Num ((75 + 41.7 + 41.7) / 3), [75, 41.7, 41.7])]"
  by (simp add: calculateRoutes_def fallback_world_def geocodeLocation_def routeProfiles_def
      getRouteFromORS_def fallback_route_def evaluate_def calculateAQIAlongRoute_def
      sample_loop_closed indices_3 sample_at_def fetchAQIData_def rank_def
      string_of_nat.simps initial_state_def Let_def)

end
